theory Spec2Isabelle
  imports Main
begin

section \<open>Region middleware of the storefront (src/middleware.ts)\<close>

text \<open>
  The middleware keeps a process-wide cache of the backend's regions (a JavaScript
  \<open>Map\<close> from country code to region, a timestamp and a fallback region), resolves a
  country code for every request and either lets the request through or redirects it to
  the region-prefixed URL. The embedding below follows \<open>getRegionMap\<close>,
  \<open>getCountryCode\<close> and \<open>middleware\<close> line by line. The network and the clock are
  inputs of each call; module state is passed in and returned; a \<open>throw\<close> is the left
  summand of a sum type.
\<close>

subsection \<open>JavaScript strings\<close>

text \<open>
  Strings are lists of 8-bit characters. The strings that are lower-cased are the URL's
  path name (ASCII, percent-encoded) and a header value (a byte string), and on code
  points below 256 \<open>String.prototype.toLowerCase\<close> shifts exactly the letters A to Z
  and the Latin-1 capitals (192 to 222 but for the multiplication sign 215) by 32.
\<close>

definition lower_char :: "char \<Rightarrow> char" where
  "lower_char c =
     (let n = (of_char c :: nat)
      in if (65 \<le> n \<and> n \<le> 90) \<or> (192 \<le> n \<and> n \<le> 222 \<and> n \<noteq> 215)
         then char_of (n + 32) else c)"

definition toLowerCase :: "string \<Rightarrow> string" where
  "toLowerCase s = map lower_char s"

text \<open>\<open>s.split(sep)\<close> for a one-character separator: never the empty array.\<close>

fun str_split :: "char \<Rightarrow> string \<Rightarrow> string list" where
  "str_split sep [] = [[]]"
| "str_split sep (c # cs) =
     (if c = sep then [] # str_split sep cs
      else (case str_split sep cs of
              [] \<Rightarrow> [[c]]
            | w # ws \<Rightarrow> (c # w) # ws))"

text \<open>\<open>xs[i]\<close>: \<open>undefined\<close> (here \<open>None\<close>) out of range.\<close>

definition at_index :: "'a list \<Rightarrow> nat \<Rightarrow> 'a option" where
  "at_index xs i = (if i < length xs then Some (xs ! i) else None)"

fun startsWith :: "string \<Rightarrow> string \<Rightarrow> bool" where
  "startsWith s [] = True"
| "startsWith [] (c # t) = False"
| "startsWith (a # s) (c # t) = (a = c \<and> startsWith s t)"

text \<open>\<open>s.includes(t)\<close>: \<open>t\<close> occurs in \<open>s\<close> as a contiguous substring.\<close>

fun str_includes :: "string \<Rightarrow> string \<Rightarrow> bool" where
  "str_includes [] t = (t = [])"
| "str_includes (a # s) t = (startsWith (a # s) t \<or> str_includes s t)"

text \<open>Truthiness of a value that is a string or \<open>undefined\<close>.\<close>

definition truthy :: "string option \<Rightarrow> bool" where
  "truthy v = (case v of None \<Rightarrow> False | Some s \<Rightarrow> s \<noteq> [])"

subsection \<open>The JavaScript Map\<close>

text \<open>
  A \<open>Map\<close> iterates in insertion order, and \<open>set\<close> on a key that is present replaces
  the value where the key stands: an association list, \<open>set\<close> appending a new key.
\<close>

type_synonym 'v js_map = "(string \<times> 'v) list"

fun map_set :: "string \<Rightarrow> 'v \<Rightarrow> 'v js_map \<Rightarrow> 'v js_map" where
  "map_set k v [] = [(k, v)]"
| "map_set k v ((k', v') # m) =
     (if k' = k then (k, v) # m else (k', v') # map_set k v m)"

definition map_get :: "'v js_map \<Rightarrow> string \<Rightarrow> 'v option" where
  "map_get m k = map_of m k"

definition map_has :: "'v js_map \<Rightarrow> string \<Rightarrow> bool" where
  "map_has m k = (map_of m k \<noteq> None)"

text \<open>\<open>m.keys().next().value\<close>: the first inserted key, \<open>undefined\<close> on the empty map.\<close>

definition first_key :: "'v js_map \<Rightarrow> string option" where
  "first_key m = (case m of [] \<Rightarrow> None | (k, v) # rest \<Rightarrow> Some k)"

subsection \<open>Data\<close>

text \<open>
  Of \<open>HttpTypes.StoreRegion\<close> the middleware reads \<open>name\<close> (in log lines) and
  \<open>countries\<close>, of a country \<open>iso_2\<close>; both \<open>countries\<close> and \<open>iso_2\<close> are optional in
  the type.
\<close>

record country =
  iso_2 :: "string option"

record region =
  name :: string
  countries :: "country list option"

text \<open>The module's state: \<open>regionMapCache\<close> and \<open>fallbackRegion\<close>.\<close>

record module_state =
  regionMap :: "region js_map"
  regionMapUpdated :: int
  fallbackRegion :: "region option"

text \<open>The state when the module is loaded at time \<open>t0\<close> (milliseconds).\<close>

definition initial_state :: "int \<Rightarrow> module_state" where
  "initial_state t0 = \<lparr>regionMap = [], regionMapUpdated = t0, fallbackRegion = None\<rparr>"

record config =
  NEXT_PUBLIC_DEFAULT_REGION :: "string option"

text \<open>\<open>process.env.NEXT_PUBLIC_DEFAULT_REGION || "us"\<close>, under both of its names.\<close>

definition DEFAULT_REGION :: "config \<Rightarrow> string" where
  "DEFAULT_REGION cfg =
     (if truthy (NEXT_PUBLIC_DEFAULT_REGION cfg) then the (NEXT_PUBLIC_DEFAULT_REGION cfg)
      else ''us'')"

definition DEFAULT_REGION_CODE :: "config \<Rightarrow> string" where
  "DEFAULT_REGION_CODE cfg =
     (if truthy (NEXT_PUBLIC_DEFAULT_REGION cfg) then the (NEXT_PUBLIC_DEFAULT_REGION cfg)
      else ''us'')"

datatype error = FetchFailed | JsonFailed | TypeError

text \<open>
  What \<open>response.json()\<close> gives: it rejects, or the body's \<open>regions\<close> field, which may be
  missing. What \<open>fetch\<close> gives: it rejects, or a response with its \<open>ok\<close> flag.
\<close>

datatype json_result = JsonThrows | JsonBody "region list option"

datatype fetch_result = FetchThrows | FetchResponse bool json_result

text \<open>
  The world of one call of \<open>getRegionMap\<close>: \<open>Date.now()\<close> in the freshness test, the
  outcome of the fetch, and \<open>Date.now()\<close> when the timestamp is written.
\<close>

record env =
  now :: int
  fetch :: fetch_result
  now_after :: int

subsection \<open>getRegionMap\<close>

text \<open>The test of lines 22 to 25: no truthy first key, or older than an hour.\<close>

definition needs_refresh :: "env \<Rightarrow> module_state \<Rightarrow> bool" where
  "needs_refresh e s =
     (\<not> truthy (first_key (regionMap s)) \<or> regionMapUpdated s < now e - 3600 * 1000)"

definition region_has_iso :: "string \<Rightarrow> region \<Rightarrow> bool" where
  "region_has_iso code r =
     (case countries r of
        None \<Rightarrow> False
      | Some cs \<Rightarrow> list_ex (\<lambda>c. iso_2 c = Some code) cs)"

text \<open>Lines 54 to 68, on a list \<open>r0 # rest\<close> that is not empty.\<close>

definition select_fallback :: "config \<Rightarrow> region \<Rightarrow> region list \<Rightarrow> region option \<Rightarrow> region option" where
  "select_fallback cfg r0 rest fb =
     (case fb of
        Some f \<Rightarrow> Some f
      | None \<Rightarrow>
          (case find (region_has_iso (DEFAULT_REGION_CODE cfg)) (r0 # rest) of
             Some envRegion \<Rightarrow> Some envRegion
           | None \<Rightarrow> Some r0))"

text \<open>\<open>c.iso_2 ?? ""\<close>\<close>

definition country_key :: "country \<Rightarrow> string" where
  "country_key c = (case iso_2 c of None \<Rightarrow> [] | Some k \<Rightarrow> k)"

text \<open>Lines 71 to 75: the inner and the outer \<open>forEach\<close>.\<close>

definition set_countries :: "region \<Rightarrow> region js_map \<Rightarrow> region js_map" where
  "set_countries r m =
     (case countries r of
        None \<Rightarrow> m
      | Some cs \<Rightarrow> foldl (\<lambda>acc c. map_set (country_key c) r acc) m cs)"

definition populate :: "region list \<Rightarrow> region js_map \<Rightarrow> region js_map" where
  "populate rs m = foldl (\<lambda>acc r. set_countries r acc) m rs"

text \<open>Lines 82 to 86: the fallback's countries, those with a truthy \<open>iso_2\<close> only.\<close>

definition populate_fallback :: "region \<Rightarrow> region js_map \<Rightarrow> region js_map" where
  "populate_fallback fb m =
     (case countries fb of
        None \<Rightarrow> m
      | Some cs \<Rightarrow>
          foldl (\<lambda>acc c. if truthy (iso_2 c) then map_set (the (iso_2 c)) fb acc else acc) m cs)"

text \<open>
  The body of the \<open>try\<close> (lines 30 to 77). It throws only before it has written anything,
  so a throw carries no state; \<open>Inr\<close> is the state at the early \<open>return\<close> or at the end
  of the block.
\<close>

definition try_refresh :: "config \<Rightarrow> env \<Rightarrow> module_state \<Rightarrow> error + module_state" where
  "try_refresh cfg e s =
     (case fetch e of
        FetchThrows \<Rightarrow> Inl FetchFailed
      | FetchResponse ok body \<Rightarrow>
          if \<not> ok then Inr s
          else (case body of
                  JsonThrows \<Rightarrow> Inl JsonFailed
                | JsonBody None \<Rightarrow> Inr s
                | JsonBody (Some []) \<Rightarrow> Inr s
                | JsonBody (Some (r0 # rest)) \<Rightarrow>
                    Inr \<lparr>regionMap = populate (r0 # rest) (regionMap s),
                         regionMapUpdated = now_after e,
                         fallbackRegion = select_fallback cfg r0 rest (fallbackRegion s)\<rparr>))"

text \<open>The \<open>catch\<close> block (lines 79 to 89).\<close>

definition on_fetch_error :: "env \<Rightarrow> module_state \<Rightarrow> module_state" where
  "on_fetch_error e s =
     (case fallbackRegion s of
        None \<Rightarrow> s
      | Some fb \<Rightarrow>
          if \<not> truthy (first_key (regionMap s))
          then s\<lparr>regionMap := populate_fallback fb (regionMap s),
                 regionMapUpdated := now_after e\<rparr>
          else s)"

text \<open>
  What a call gives back: the returned map (or the error it raised), the module state
  it leaves, and how many times it called \<open>fetch\<close>.
\<close>

record outcome =
  returned :: "error + region js_map"
  state_after :: module_state
  fetches :: nat

definition getRegionMap :: "config \<Rightarrow> env \<Rightarrow> module_state \<Rightarrow> outcome" where
  "getRegionMap cfg e s =
     (if needs_refresh e s then
        (case try_refresh cfg e s of
           Inr s' \<Rightarrow> \<lparr>returned = Inr (regionMap s'), state_after = s', fetches = 1\<rparr>
         | Inl err \<Rightarrow>
             (let s' = on_fetch_error e s
              in \<lparr>returned = Inr (regionMap s'), state_after = s', fetches = 1\<rparr>))
      else \<lparr>returned = Inr (regionMap s), state_after = s, fetches = 0\<rparr>)"

text \<open>A process calls \<open>getRegionMap\<close> again and again, each time in a new world.\<close>

fun getRegionMap_calls :: "config \<Rightarrow> env list \<Rightarrow> module_state \<Rightarrow> module_state" where
  "getRegionMap_calls cfg [] s = s"
| "getRegionMap_calls cfg (e # es) s =
     getRegionMap_calls cfg es (state_after (getRegionMap cfg e s))"

subsection \<open>getCountryCode\<close>

text \<open>The fields of the request that the middleware reads.\<close>

record request =
  origin :: string
  pathname :: string
  search :: string
  href :: string
  x_vercel_ip_country :: "string option"

text \<open>\<open>request.nextUrl.pathname.split("/")[1]\<close>\<close>

definition first_segment :: "request \<Rightarrow> string option" where
  "first_segment req = at_index (str_split CHR ''/'' (pathname req)) 1"

text \<open>
  Lines 106 to 130. Nothing inside the \<open>try\<close> throws on these inputs, so the \<open>catch\<close> of
  lines 131 to 135 has no branch here.
\<close>

definition getCountryCode :: "config \<Rightarrow> request \<Rightarrow> 'v js_map \<Rightarrow> string" where
  "getCountryCode cfg req m =
     (let vercelCountryCode = map_option toLowerCase (x_vercel_ip_country req);
          urlCountryCode = map_option toLowerCase (first_segment req);
          countryCode =
            (if truthy urlCountryCode \<and> map_has m (the urlCountryCode) then urlCountryCode
             else if truthy vercelCountryCode \<and> map_has m (the vercelCountryCode)
               then vercelCountryCode
             else if map_has m (DEFAULT_REGION cfg) then Some (DEFAULT_REGION cfg)
             else if truthy (first_key m) then first_key m
             else None)
      in if \<not> truthy countryCode then DEFAULT_REGION_CODE cfg else the countryCode)"

subsection \<open>middleware\<close>

datatype response = Next | Redirect string nat

text \<open>\<open>pathname === "/" ? "" : pathname\<close>, then the query string.\<close>

definition redirect_target :: "request \<Rightarrow> string \<Rightarrow> string" where
  "redirect_target req code =
     origin req @ ''/'' @ code @ (if pathname req = ''/'' then [] else pathname req)
       @ (if search req \<noteq> [] then search req else [])"

text \<open>
  Lines 146 to 169, once the country code is known. \<open>countryCode && ...\<close> does not
  evaluate its right side on a falsy code; on a truthy one \<open>split("/")[1].includes\<close>
  is a TypeError when the path name has no second piece. The branch of the falsy code
  (a redirect to \<open>href\<close>) is kept as written, though \<open>getCountryCode\<close> never returns
  the empty string.
\<close>

definition decide :: "request \<Rightarrow> string \<Rightarrow> error + response" where
  "decide req countryCode =
     (if countryCode \<noteq> [] then
        (case first_segment req of
           None \<Rightarrow> Inl TypeError
         | Some seg \<Rightarrow>
             if str_includes seg countryCode then Inr Next
             else Inr (Redirect (redirect_target req countryCode) 307))
      else Inr (Redirect (href req) 307))"

text \<open>
  The body of the \<open>try\<close> (lines 143 to 169): what it returns or throws, and the module
  state it leaves either way.
\<close>

definition middleware_try ::
  "config \<Rightarrow> env \<Rightarrow> request \<Rightarrow> module_state \<Rightarrow> (error + response) \<times> module_state" where
  "middleware_try cfg e req s =
     (let out = getRegionMap cfg e s
      in (case returned out of
            Inl err \<Rightarrow> (Inl err, state_after out)
          | Inr m \<Rightarrow> (decide req (getCountryCode cfg req m), state_after out)))"

record routed =
  answer :: "error + response"
  state_left :: module_state

text \<open>The whole handler: the \<open>catch\<close> of lines 170 to 175 answers every throw.\<close>

definition middleware :: "config \<Rightarrow> env \<Rightarrow> request \<Rightarrow> module_state \<Rightarrow> routed" where
  "middleware cfg e req s =
     (case middleware_try cfg e req s of
        (Inr resp, s') \<Rightarrow> \<lparr>answer = Inr resp, state_left = s'\<rparr>
      | (Inl err, s') \<Rightarrow>
          \<lparr>answer = Inr (Redirect (redirect_target req (DEFAULT_REGION_CODE cfg)) 307),
           state_left = s'\<rparr>)"

subsection \<open>Vocabulary of the properties\<close>

text \<open>
  \<open>region_writes k r\<close>: the population of lines 71 to 75 stores \<open>r\<close> under the key
  \<open>k\<close>, that is, some country of \<open>r\<close> has \<open>iso_2 ?? ""\<close> equal to \<open>k\<close>.
\<close>

definition region_writes :: "string \<Rightarrow> region \<Rightarrow> bool" where
  "region_writes k r =
     (case countries r of
        None \<Rightarrow> False
      | Some cs \<Rightarrow> list_ex (\<lambda>c. country_key c = k) cs)"

text \<open>
  \<open>fallback_writes k r\<close>: the population of lines 82 to 86 stores the fallback \<open>r\<close>
  under \<open>k\<close>: a country of \<open>r\<close> has the \<open>iso_2\<close> code \<open>k\<close>, and \<open>k\<close> is not empty.
\<close>

definition fallback_writes :: "string \<Rightarrow> region \<Rightarrow> bool" where
  "fallback_writes k r = (k \<noteq> [] \<and> region_has_iso k r)"

text \<open>
  The resolution order as the specification words it: the lower-cased first path
  segment if it is a key, the lower-cased geolocation header if it is a key, the default
  region if it is a key, the first inserted key if the directory is not empty, the
  default region code.
\<close>

definition resolve_spec :: "config \<Rightarrow> request \<Rightarrow> 'v js_map \<Rightarrow> string" where
  "resolve_spec cfg req m =
     (let url = map_option toLowerCase (first_segment req);
          geo = map_option toLowerCase (x_vercel_ip_country req)
      in if url \<noteq> None \<and> map_has m (the url) then the url
         else if geo \<noteq> None \<and> map_has m (the geo) then the geo
         else if map_has m (DEFAULT_REGION cfg) then DEFAULT_REGION cfg
         else if m \<noteq> [] then fst (hd m)
         else DEFAULT_REGION_CODE cfg)"

text \<open>
  \<open>segment_hit\<close>: the request has a first path segment that is not empty and whose
  lower-cased form is a key of the directory; \<open>header_hit\<close>: the same of the
  geolocation header.
\<close>

definition segment_hit :: "request \<Rightarrow> 'v js_map \<Rightarrow> bool" where
  "segment_hit req m =
     (case first_segment req of
        None \<Rightarrow> False
      | Some u \<Rightarrow> u \<noteq> [] \<and> map_has m (toLowerCase u))"

definition header_hit :: "request \<Rightarrow> 'v js_map \<Rightarrow> bool" where
  "header_hit req m =
     (case x_vercel_ip_country req of
        None \<Rightarrow> False
      | Some g \<Rightarrow> g \<noteq> [] \<and> map_has m (toLowerCase g))"

subsection \<open>Example data\<close>

abbreviation cfg_unset :: config where
  "cfg_unset \<equiv> \<lparr>NEXT_PUBLIC_DEFAULT_REGION = None\<rparr>"

abbreviation with_iso :: "string \<Rightarrow> country" where
  "with_iso k \<equiv> \<lparr>iso_2 = Some k\<rparr>"

abbreviation no_iso :: country where
  "no_iso \<equiv> \<lparr>iso_2 = None\<rparr>"

abbreviation region_of :: "string \<Rightarrow> country list \<Rightarrow> region" where
  "region_of n cs \<equiv> \<lparr>name = n, countries = Some cs\<rparr>"

abbreviation call :: "int \<Rightarrow> fetch_result \<Rightarrow> env" where
  "call t f \<equiv> \<lparr>now = t, fetch = f, now_after = t + 1\<rparr>"

abbreviation regions_ok :: "region list \<Rightarrow> fetch_result" where
  "regions_ok rs \<equiv> FetchResponse True (JsonBody (Some rs))"

abbreviation visit :: "string \<Rightarrow> string \<Rightarrow> string option \<Rightarrow> request" where
  "visit path query geo \<equiv>
     \<lparr>origin = ''https://shop.example'', pathname = path, search = query,
      href = ''https://shop.example'' @ path @ query, x_vercel_ip_country = geo\<rparr>"

section \<open>Properties\<close>

subsection \<open>Strings and maps\<close>

lemma truthy_simps [simp]: "truthy None = False" "truthy (Some s) = (s \<noteq> [])"
  by (simp_all add: truthy_def)

lemma startsWith_iff: "startsWith s t \<longleftrightarrow> (\<exists>q. s = t @ q)"
  by (induction s t rule: startsWith.induct) auto

text \<open>\<open>str_includes\<close> is the substring relation.\<close>

lemma str_includes_iff: "str_includes s t \<longleftrightarrow> (\<exists>p q. s = p @ t @ q)"
proof (induction s)
  case Nil
  then show ?case by simp
next
  case (Cons a s)
  show ?case
  proof
    assume "str_includes (a # s) t"
    then consider "startsWith (a # s) t" | "str_includes s t" by auto
    then show "\<exists>p q. a # s = p @ t @ q"
    proof cases
      case 1
      then obtain q where "a # s = t @ q" using startsWith_iff by blast
      then have "a # s = [] @ t @ q" by simp
      then show ?thesis by blast
    next
      case 2
      then obtain p q where "s = p @ t @ q" using Cons.IH by blast
      then have "a # s = (a # p) @ t @ q" by simp
      then show ?thesis by blast
    qed
  next
    assume "\<exists>p q. a # s = p @ t @ q"
    then obtain p q where pq: "a # s = p @ t @ q" by blast
    show "str_includes (a # s) t"
    proof (cases p)
      case Nil
      with pq have "startsWith (a # s) t" using startsWith_iff by auto
      then show ?thesis by simp
    next
      case (Cons b p')
      with pq have "s = p' @ t @ q" by simp
      then have "str_includes s t" using Cons.IH by blast
      then show ?thesis by simp
    qed
  qed
qed

lemma map_of_map_set: "map_of (map_set k v m) k' = (if k' = k then Some v else map_of m k')"
  by (induction m) auto

lemma map_of_foldl_set:
  "map_of (foldl (\<lambda>acc c. map_set (country_key c) r acc) m cs) k =
     (if list_ex (\<lambda>c. country_key c = k) cs then Some r else map_of m k)"
  by (induction cs arbitrary: m) (auto simp: map_of_map_set)

lemma map_of_set_countries:
  "map_of (set_countries r m) k = (if region_writes k r then Some r else map_of m k)"
  by (simp add: set_countries_def region_writes_def map_of_foldl_set split: option.splits)

lemma populate_snoc: "populate (rs @ [r]) m = set_countries r (populate rs m)"
  by (simp add: populate_def)

text \<open>After the population a key holds its last writer, or what it held before.\<close>

lemma map_of_populate:
  "map_of (populate rs m) k =
     (if filter (region_writes k) rs = [] then map_of m k
      else Some (last (filter (region_writes k) rs)))"
proof (induction rs rule: rev_induct)
  case Nil
  then show ?case by (simp add: populate_def)
next
  case (snoc r rs)
  then show ?case by (simp add: populate_snoc map_of_set_countries)
qed

lemma map_of_foldl_fallback:
  "map_of (foldl (\<lambda>acc c. if truthy (iso_2 c) then map_set (the (iso_2 c)) fb acc else acc) m cs) k =
     (if list_ex (\<lambda>c. truthy (iso_2 c) \<and> iso_2 c = Some k) cs then Some fb else map_of m k)"
  by (induction cs arbitrary: m) (auto simp: map_of_map_set truthy_def split: option.splits)

lemma map_of_populate_fallback:
  "map_of (populate_fallback fb m) k = (if fallback_writes k fb then Some fb else map_of m k)"
  unfolding populate_fallback_def fallback_writes_def region_has_iso_def
  by (cases "countries fb") (auto simp: map_of_foldl_fallback list_ex_iff)

subsection \<open>The paths of getRegionMap\<close>

lemma DEFAULT_REGION_CODE_nonempty: "DEFAULT_REGION_CODE cfg \<noteq> []"
  by (cases "NEXT_PUBLIC_DEFAULT_REGION cfg") (auto simp: DEFAULT_REGION_CODE_def)

lemma DEFAULT_REGION_nonempty: "DEFAULT_REGION cfg \<noteq> []"
  by (cases "NEXT_PUBLIC_DEFAULT_REGION cfg") (auto simp: DEFAULT_REGION_def)

lemma getRegionMap_fresh:
  "\<not> needs_refresh e s \<Longrightarrow>
     getRegionMap cfg e s = \<lparr>returned = Inr (regionMap s), state_after = s, fetches = 0\<rparr>"
  by (simp add: getRegionMap_def)

lemma try_refresh_success:
  "fetch e = FetchResponse True (JsonBody (Some rs)) \<Longrightarrow> rs \<noteq> [] \<Longrightarrow>
     try_refresh cfg e s =
       Inr \<lparr>regionMap = populate rs (regionMap s), regionMapUpdated = now_after e,
            fallbackRegion = select_fallback cfg (hd rs) (tl rs) (fallbackRegion s)\<rparr>"
  by (cases rs) (simp_all add: try_refresh_def)

text \<open>The four ways through the \<open>try\<close> block.\<close>

lemma try_refresh_cases:
  "try_refresh cfg e s = Inl FetchFailed \<and> fetch e = FetchThrows
   \<or> try_refresh cfg e s = Inl JsonFailed \<and> fetch e = FetchResponse True JsonThrows
   \<or> try_refresh cfg e s = Inr s \<and>
       ((\<exists>body. fetch e = FetchResponse False body) \<or> fetch e = FetchResponse True (JsonBody None)
         \<or> fetch e = FetchResponse True (JsonBody (Some [])))
   \<or> (\<exists>rs. rs \<noteq> [] \<and> fetch e = FetchResponse True (JsonBody (Some rs)) \<and>
         try_refresh cfg e s =
           Inr \<lparr>regionMap = populate rs (regionMap s), regionMapUpdated = now_after e,
                fallbackRegion = select_fallback cfg (hd rs) (tl rs) (fallbackRegion s)\<rparr>)"
  by (auto simp: try_refresh_def
      split: fetch_result.splits json_result.splits option.splits list.splits)

lemma getRegionMap_success:
  assumes "needs_refresh e s" and "fetch e = FetchResponse True (JsonBody (Some rs))" and "rs \<noteq> []"
  shows "getRegionMap cfg e s =
     \<lparr>returned = Inr (populate rs (regionMap s)),
      state_after = \<lparr>regionMap = populate rs (regionMap s), regionMapUpdated = now_after e,
            fallbackRegion = select_fallback cfg (hd rs) (tl rs) (fallbackRegion s)\<rparr>,
      fetches = 1\<rparr>"
  using assms by (simp add: getRegionMap_def try_refresh_success)

lemma getRegionMap_thrown:
  assumes "needs_refresh e s" and "fetch e = FetchThrows \<or> fetch e = FetchResponse True JsonThrows"
  shows "getRegionMap cfg e s =
     \<lparr>returned = Inr (regionMap (on_fetch_error e s)), state_after = on_fetch_error e s, fetches = 1\<rparr>"
  using assms by (auto simp: getRegionMap_def try_refresh_def Let_def)

lemma select_fallback_keeps: "select_fallback cfg r0 rest (Some f) = Some f"
  by (simp add: select_fallback_def)

lemma getRegionMap_keeps_fallback:
  assumes "fallbackRegion s = Some f"
  shows "fallbackRegion (state_after (getRegionMap cfg e s)) = Some f"
proof (cases "needs_refresh e s")
  case False
  then show ?thesis using assms by (simp add: getRegionMap_fresh)
next
  case True
  from try_refresh_cases [of cfg e s] show ?thesis
    using True assms
    by (auto simp: getRegionMap_def Let_def on_fetch_error_def select_fallback_keeps)
qed

lemma getRegionMap_calls_keep_fallback:
  "fallbackRegion s = Some f \<Longrightarrow> fallbackRegion (getRegionMap_calls cfg es s) = Some f"
proof (induction es arbitrary: s)
  case Nil
  then show ?case by simp
next
  case (Cons e es)
  from Cons.prems have "fallbackRegion (state_after (getRegionMap cfg e s)) = Some f"
    by (rule getRegionMap_keeps_fallback)
  then show ?case using Cons.IH by simp
qed

text \<open>
  The \<open>catch\<close> path: it returns the mapping; on the empty mapping with a fallback region
  the result holds exactly the fallback's codes; with a truthy first key or without a
  fallback region nothing changes.
\<close>

lemma on_fetch_error_map_empty_key:
  "map_of (regionMap (on_fetch_error e s)) [] = map_of (regionMap s) []"
  by (simp add: on_fetch_error_def map_of_populate_fallback fallback_writes_def
      split: option.splits)

lemma getRegionMap_fetch_throws:
  assumes stale: "needs_refresh e s"
    and thrown: "fetch e = FetchThrows \<or> fetch e = FetchResponse True JsonThrows"
  shows "returned (getRegionMap cfg e s) = Inr (regionMap (state_after (getRegionMap cfg e s)))"
    and "regionMap s = [] \<Longrightarrow> fallbackRegion s = Some fb \<Longrightarrow>
           map_get (regionMap (state_after (getRegionMap cfg e s))) k
             = (if fallback_writes k fb then Some fb else None)"
    and "truthy (first_key (regionMap s)) \<or> fallbackRegion s = None \<Longrightarrow>
           state_after (getRegionMap cfg e s) = s"
proof -
  have st: "getRegionMap cfg e s =
     \<lparr>returned = Inr (regionMap (on_fetch_error e s)), state_after = on_fetch_error e s, fetches = 1\<rparr>"
    using stale thrown by (rule getRegionMap_thrown)
  show "returned (getRegionMap cfg e s) = Inr (regionMap (state_after (getRegionMap cfg e s)))"
    by (simp add: st)
  show "map_get (regionMap (state_after (getRegionMap cfg e s))) k
             = (if fallback_writes k fb then Some fb else None)"
    if "regionMap s = []" "fallbackRegion s = Some fb"
    using that by (simp add: st on_fetch_error_def first_key_def map_get_def map_of_populate_fallback)
  show "state_after (getRegionMap cfg e s) = s"
    if "truthy (first_key (regionMap s)) \<or> fallbackRegion s = None"
    using that by (auto simp: st on_fetch_error_def split: option.splits)
qed

subsection \<open>Resolution and routing\<close>

lemma getRegionMap_returns:
  "returned (getRegionMap cfg e s) = Inr (regionMap (state_after (getRegionMap cfg e s)))"
  by (simp add: getRegionMap_def Let_def split: sum.splits)

lemma toLowerCase_empty [simp]: "toLowerCase u = [] \<longleftrightarrow> u = []"
  by (simp add: toLowerCase_def)

lemma toLowerCase_Nil [simp]: "toLowerCase [] = []"
  by (simp add: toLowerCase_def)

lemma getCountryCode_nonempty: "getCountryCode cfg req m \<noteq> []"
  unfolding getCountryCode_def Let_def
  using DEFAULT_REGION_CODE_nonempty [of cfg] DEFAULT_REGION_nonempty [of cfg]
  by (auto simp: truthy_def split: option.splits)

lemma map_has_iff: "map_has m k \<longleftrightarrow> k \<in> fst ` set m"
  by (simp add: map_has_def map_of_eq_None_iff)

lemma first_key_cases:
  "first_key m = (if m = [] then None else Some (fst (hd m)))"
  by (cases m) (auto simp: first_key_def)

lemma getCountryCode_by_hits:
  "getCountryCode cfg req m =
     (if segment_hit req m then toLowerCase (the (first_segment req))
      else if header_hit req m then toLowerCase (the (x_vercel_ip_country req))
      else if map_has m (DEFAULT_REGION cfg) then DEFAULT_REGION cfg
      else if truthy (first_key m) then the (first_key m)
      else DEFAULT_REGION_CODE cfg)"
  unfolding getCountryCode_def Let_def segment_hit_def header_hit_def
  using DEFAULT_REGION_nonempty [of cfg]
  by (cases "first_segment req"; cases "x_vercel_ip_country req") auto

lemma first_segment_None_throws:
  "first_segment req = None \<Longrightarrow> fst (middleware_try cfg e req s) = Inl TypeError"
  by (simp add: middleware_try_def Let_def getRegionMap_returns decide_def getCountryCode_nonempty)

lemma first_segment_Some_decides:
  "first_segment req = Some seg \<Longrightarrow>
     fst (middleware_try cfg e req s) =
       Inr (let cc = getCountryCode cfg req (regionMap (state_after (getRegionMap cfg e s)))
            in if str_includes seg cc then Next else Redirect (redirect_target req cc) 307)"
  by (simp add: middleware_try_def Let_def getRegionMap_returns decide_def getCountryCode_nonempty)

section \<open>The claims\<close>

text \<open>
  C1. On the path of \<open>middleware\<close> that raises nothing (the path name has a first
  segment), the request is passed through exactly when the first path segment contains
  the resolved country code as a substring, so the code \<open>us\<close> against the segment
  \<open>users\<close> counts as already region-scoped; otherwise the answer is a redirect with
  status 307 to the origin, a slash, the country code, the path (nothing for the root
  path) and the query string.
\<close>

theorem middleware_pass_or_redirect:
  assumes "first_segment req = Some seg"
  shows "(let cc = getCountryCode cfg req (regionMap (state_after (getRegionMap cfg e s)))
          in answer (middleware cfg e req s) =
               Inr (if (\<exists>p q. seg = p @ cc @ q) then Next
                    else Redirect (origin req @ ''/'' @ cc
                           @ (if pathname req = ''/'' then [] else pathname req)
                           @ search req) 307))"
proof -
  let ?cc = "getCountryCode cfg req (regionMap (state_after (getRegionMap cfg e s)))"
  have "fst (middleware_try cfg e req s) =
      Inr (if str_includes seg ?cc then Next else Redirect (redirect_target req ?cc) 307)"
    using first_segment_Some_decides [OF assms, of cfg e s] by (simp add: Let_def)
  then have "answer (middleware cfg e req s) =
      Inr (if str_includes seg ?cc then Next else Redirect (redirect_target req ?cc) 307)"
    by (cases "middleware_try cfg e req s") (simp add: middleware_def)
  then show ?thesis
    by (simp add: Let_def str_includes_iff redirect_target_def)
qed

theorem middleware_pass_or_redirect_witness:
  "first_segment (visit ''/users'' [] None) = Some ''users''
   \<and> answer (middleware cfg_unset (call 1000 FetchThrows) (visit ''/users'' [] None)
        \<lparr>regionMap = [(''us'', region_of ''US'' [with_iso ''us''])], regionMapUpdated = 0,
         fallbackRegion = Some (region_of ''US'' [with_iso ''us''])\<rparr>) = Inr Next
   \<and> first_segment (visit ''/cart'' ''?a=b'' None) = Some ''cart''
   \<and> answer (middleware cfg_unset (call 1000 FetchThrows) (visit ''/cart'' ''?a=b'' None)
        \<lparr>regionMap = [(''fr'', region_of ''FR'' [with_iso ''fr''])], regionMapUpdated = 0,
         fallbackRegion = Some (region_of ''FR'' [with_iso ''fr''])\<rparr>)
       = Inr (Redirect ''https://shop.example/fr/cart?a=b'' 307)
   \<and> first_segment (visit ''/'' [] None) = Some []
   \<and> answer (middleware cfg_unset (call 1000 FetchThrows) (visit ''/'' [] None)
        \<lparr>regionMap = [(''de'', region_of ''EU'' [with_iso ''de''])], regionMapUpdated = 0,
         fallbackRegion = Some (region_of ''EU'' [with_iso ''de''])\<rparr>)
       = Inr (Redirect ''https://shop.example/de'' 307)"
proof -
  let ?e = "call 1000 FetchThrows"
  let ?us = "\<lparr>regionMap = [(''us'', region_of ''US'' [with_iso ''us''])], regionMapUpdated = 0,
         fallbackRegion = Some (region_of ''US'' [with_iso ''us''])\<rparr>"
  let ?fr = "\<lparr>regionMap = [(''fr'', region_of ''FR'' [with_iso ''fr''])], regionMapUpdated = 0,
         fallbackRegion = Some (region_of ''FR'' [with_iso ''fr''])\<rparr>"
  let ?de = "\<lparr>regionMap = [(''de'', region_of ''EU'' [with_iso ''de''])], regionMapUpdated = 0,
         fallbackRegion = Some (region_of ''EU'' [with_iso ''de''])\<rparr>"
  let ?users = "visit ''/users'' [] None"
  let ?cart = "visit ''/cart'' ''?a=b'' None"
  let ?root = "visit ''/'' [] None"
  have seg1: "first_segment ?users = Some ''users''" by code_simp
  have cc1: "getCountryCode cfg_unset ?users
      (regionMap (state_after (getRegionMap cfg_unset ?e ?us))) = ''us''" by code_simp
  have in1: "\<exists>p q. ''users'' = p @ ''us'' @ q"
    using str_includes_iff [of "''users''" "''us''"] by simp
  have a1: "answer (middleware cfg_unset ?e ?users ?us) = Inr Next"
    using middleware_pass_or_redirect [OF seg1, of cfg_unset ?e ?us] in1
    unfolding Let_def cc1 by simp
  have seg2: "first_segment ?cart = Some ''cart''" by code_simp
  have cc2: "getCountryCode cfg_unset ?cart
      (regionMap (state_after (getRegionMap cfg_unset ?e ?fr))) = ''fr''" by code_simp
  have in2: "\<not> (\<exists>p q. ''cart'' = p @ ''fr'' @ q)"
    using str_includes_iff [of "''cart''" "''fr''"] by simp
  have a2: "answer (middleware cfg_unset ?e ?cart ?fr)
      = Inr (Redirect ''https://shop.example/fr/cart?a=b'' 307)"
    using middleware_pass_or_redirect [OF seg2, of cfg_unset ?e ?fr] in2
    unfolding Let_def cc2 by simp
  have seg3: "first_segment ?root = Some []" by code_simp
  have cc3: "getCountryCode cfg_unset ?root
      (regionMap (state_after (getRegionMap cfg_unset ?e ?de))) = ''de''" by code_simp
  have in3: "\<not> (\<exists>p q. [] = p @ ''de'' @ q)" by simp
  have a3: "answer (middleware cfg_unset ?e ?root ?de)
      = Inr (Redirect ''https://shop.example/de'' 307)"
    using middleware_pass_or_redirect [OF seg3, of cfg_unset ?e ?de] in3
    unfolding Let_def cc3 by simp
  from seg1 a1 seg2 a2 seg3 a3 show ?thesis by simp
qed

text \<open>
  C2, amended. A call of \<open>getRegionMap\<close> changes the timestamp only on a refresh, and
  then either after a fetch that succeeded with a region list that is not empty (whether
  or not an entry was stored), or in the \<open>catch\<close> block after the fetch or the parsing
  of its body threw, when a fallback region is set and the mapping has no truthy first
  key; in both cases the timestamp becomes the current time. A non-success status, an
  empty list, an error without a fallback region and a call that does not refresh leave
  it alone.
\<close>

theorem timestamp_changes_only_on_two_paths:
  assumes "regionMapUpdated (state_after (getRegionMap cfg e s)) \<noteq> regionMapUpdated s"
  shows "regionMapUpdated (state_after (getRegionMap cfg e s)) = now_after e
    \<and> needs_refresh e s
    \<and> ((\<exists>rs. fetch e = FetchResponse True (JsonBody (Some rs)) \<and> rs \<noteq> [])
        \<or> ((fetch e = FetchThrows \<or> fetch e = FetchResponse True JsonThrows)
            \<and> fallbackRegion s \<noteq> None \<and> \<not> truthy (first_key (regionMap s))))"
proof -
  have stale: "needs_refresh e s"
    using assms by (cases "needs_refresh e s") (simp_all add: getRegionMap_fresh)
  consider (thrown) "fetch e = FetchThrows \<or> fetch e = FetchResponse True JsonThrows"
    | (same) "try_refresh cfg e s = Inr s"
    | (filled) rs where "rs \<noteq> []" and "fetch e = FetchResponse True (JsonBody (Some rs))"
    using try_refresh_cases [of cfg e s] by blast
  then show ?thesis
  proof cases
    case thrown
    then have st: "state_after (getRegionMap cfg e s) = on_fetch_error e s"
      using stale by (simp add: getRegionMap_thrown)
    have "fallbackRegion s \<noteq> None \<and> \<not> truthy (first_key (regionMap s))
        \<and> regionMapUpdated (on_fetch_error e s) = now_after e"
      using assms unfolding st
      by (auto simp: on_fetch_error_def split: option.splits if_splits)
    with thrown stale st show ?thesis by simp
  next
    case same
    then have "state_after (getRegionMap cfg e s) = s"
      using stale by (simp add: getRegionMap_def)
    with assms show ?thesis by simp
  next
    case filled
    with stale show ?thesis by (simp add: getRegionMap_success)
  qed
qed

theorem timestamp_changes_only_on_two_paths_witness:
  "regionMapUpdated (state_after (getRegionMap cfg_unset
      (call 1000 (regions_ok [region_of ''EU'' [with_iso ''de'']])) (initial_state 0)))
     \<noteq> regionMapUpdated (initial_state 0)
   \<and> regionMapUpdated (state_after (getRegionMap cfg_unset
      (call 1000 (regions_ok [region_of ''EU'' [with_iso ''de'']])) (initial_state 0))) = 1001
   \<and> needs_refresh (call 1000 (regions_ok [region_of ''EU'' [with_iso ''de'']])) (initial_state 0)"
proof -
  let ?e = "call 1000 (regions_ok [region_of ''EU'' [with_iso ''de'']])"
  have changed: "regionMapUpdated (state_after (getRegionMap cfg_unset ?e (initial_state 0)))
     \<noteq> regionMapUpdated (initial_state 0)"
    by (simp add: getRegionMap_def needs_refresh_def initial_state_def first_key_def
        try_refresh_def)
  show ?thesis
    using changed timestamp_changes_only_on_two_paths [OF changed]
    by simp
qed

text \<open>
  As first stated (the timestamp advances only after a successful fetch that stored at
  least one entry, never on a path that ends in a fetch error) C2 fails: from the
  initial state, a response whose only region has no countries advances the timestamp
  and stores nothing, and the fetch error of the next call advances it again.
\<close>

theorem timestamp_on_error_counterexample:
  "regionMap (state_after (getRegionMap cfg_unset
      (call 1000 (regions_ok [region_of ''EU'' []])) (initial_state 0))) = []
   \<and> regionMapUpdated (state_after (getRegionMap cfg_unset
      (call 1000 (regions_ok [region_of ''EU'' []])) (initial_state 0))) = 1001
   \<and> regionMapUpdated (initial_state 0) = 0
   \<and> fetch (call 2000 FetchThrows) = FetchThrows
   \<and> regionMap (state_after (getRegionMap cfg_unset (call 2000 FetchThrows)
        (state_after (getRegionMap cfg_unset
          (call 1000 (regions_ok [region_of ''EU'' []])) (initial_state 0))))) = []
   \<and> regionMapUpdated (state_after (getRegionMap cfg_unset (call 2000 FetchThrows)
        (state_after (getRegionMap cfg_unset
          (call 1000 (regions_ok [region_of ''EU'' []])) (initial_state 0))))) = 2001"
  by (simp add: getRegionMap_def needs_refresh_def initial_state_def first_key_def
      try_refresh_def populate_def set_countries_def select_fallback_def region_has_iso_def
      DEFAULT_REGION_CODE_def on_fetch_error_def populate_fallback_def)

text \<open>
  C3, amended. \<open>getCountryCode\<close> returns the first match in this order: the lower-cased
  first path segment if it is not empty and a key of the directory; the lower-cased
  geolocation header if it is not empty and a key; the default region if it is a key;
  the first inserted key if there is one and it is not the empty string; the default
  region code. On a directory without the empty string among its keys this is the order
  of the specification word for word (\<open>resolve_spec\<close>).
\<close>

theorem getCountryCode_guarded_order:
  "([] \<notin> fst ` set m \<longrightarrow> getCountryCode cfg req m = resolve_spec cfg req m)
   \<and> (segment_hit req m \<longrightarrow>
        getCountryCode cfg req m = toLowerCase (the (first_segment req)))
   \<and> (\<not> segment_hit req m \<and> header_hit req m \<longrightarrow>
        getCountryCode cfg req m = toLowerCase (the (x_vercel_ip_country req)))
   \<and> (\<not> segment_hit req m \<and> \<not> header_hit req m \<and> map_has m (DEFAULT_REGION cfg) \<longrightarrow>
        getCountryCode cfg req m = DEFAULT_REGION cfg)
   \<and> (\<not> segment_hit req m \<and> \<not> header_hit req m \<and> \<not> map_has m (DEFAULT_REGION cfg)
        \<and> first_key m = Some k \<and> k \<noteq> [] \<longrightarrow>
        getCountryCode cfg req m = k)
   \<and> (\<not> segment_hit req m \<and> \<not> header_hit req m \<and> \<not> map_has m (DEFAULT_REGION cfg)
        \<and> (first_key m = None \<or> first_key m = Some []) \<longrightarrow>
        getCountryCode cfg req m = DEFAULT_REGION_CODE cfg)"
proof (intro conjI impI)
  assume nokey: "[] \<notin> fst ` set m"
  then have no: "\<not> map_has m []" by (simp add: map_has_iff)
  have seg: "segment_hit req m \<longleftrightarrow>
      (map_option toLowerCase (first_segment req) \<noteq> None
        \<and> map_has m (the (map_option toLowerCase (first_segment req))))"
    using no by (cases "first_segment req") (auto simp: segment_hit_def)
  have hdr: "header_hit req m \<longleftrightarrow>
      (map_option toLowerCase (x_vercel_ip_country req) \<noteq> None
        \<and> map_has m (the (map_option toLowerCase (x_vercel_ip_country req))))"
    using no by (cases "x_vercel_ip_country req") (auto simp: header_hit_def)
  have fk: "truthy (first_key m) \<longleftrightarrow> m \<noteq> []"
    using nokey by (cases m) (auto simp: first_key_def)
  have fk': "m \<noteq> [] \<Longrightarrow> the (first_key m) = fst (hd m)"
    by (simp add: first_key_cases)
  show "getCountryCode cfg req m = resolve_spec cfg req m"
    unfolding getCountryCode_by_hits resolve_spec_def Let_def seg hdr fk
    by (auto simp: fk' option.map_sel)
qed (auto simp: getCountryCode_by_hits)

theorem getCountryCode_guarded_order_witness:
  "segment_hit (visit ''/de/product'' [] None)
      [(''us'', region_of ''US'' [with_iso ''us'']), (''de'', region_of ''EU'' [with_iso ''de''])]
   \<and> getCountryCode cfg_unset (visit ''/de/product'' [] None)
      [(''us'', region_of ''US'' [with_iso ''us'']), (''de'', region_of ''EU'' [with_iso ''de''])] = ''de''
   \<and> getCountryCode cfg_unset (visit ''/'' [] (Some ''US''))
      [(''us'', region_of ''US'' [with_iso ''us'']), (''de'', region_of ''EU'' [with_iso ''de''])] = ''us''
   \<and> getCountryCode cfg_unset (visit ''/'' [] None)
      [(''de'', region_of ''EU'' [with_iso ''de''])] = ''de''"
proof -
  let ?m2 = "[(''us'', region_of ''US'' [with_iso ''us'']), (''de'', region_of ''EU'' [with_iso ''de''])]"
  let ?m1 = "[(''de'', region_of ''EU'' [with_iso ''de''])]"
  let ?r1 = "visit ''/de/product'' [] None"
  let ?r2 = "visit ''/'' [] (Some ''US'')"
  let ?r3 = "visit ''/'' [] None"
  have s1: "segment_hit ?r1 ?m2" by code_simp
  have v1: "toLowerCase (the (first_segment ?r1)) = ''de''" by code_simp
  have c1: "getCountryCode cfg_unset ?r1 ?m2 = ''de''"
    using getCountryCode_guarded_order [of ?m2 cfg_unset ?r1] s1 v1 by metis
  have s2: "\<not> segment_hit ?r2 ?m2" "header_hit ?r2 ?m2" by code_simp+
  have v2: "toLowerCase (the (x_vercel_ip_country ?r2)) = ''us''" by code_simp
  have c2: "getCountryCode cfg_unset ?r2 ?m2 = ''us''"
    using getCountryCode_guarded_order [of ?m2 cfg_unset ?r2] s2 v2 by metis
  have s3: "\<not> segment_hit ?r3 ?m1" "\<not> header_hit ?r3 ?m1"
    "\<not> map_has ?m1 (DEFAULT_REGION cfg_unset)" "first_key ?m1 = Some ''de''"
    by code_simp+
  have c3: "getCountryCode cfg_unset ?r3 ?m1 = ''de''"
    using getCountryCode_guarded_order [of ?m1 cfg_unset ?r3 "''de''"] s3 by (metis list.distinct(1))
  from s1 c1 c2 c3 show ?thesis by simp
qed

text \<open>
  As first stated (for every directory, without the guards on empty strings) C3 fails
  on a directory whose first key is the empty string: for the root path and no header
  the stated order gives the empty string, the code gives the default region code.
\<close>

theorem getCountryCode_empty_key_counterexample:
  "getCountryCode cfg_unset (visit ''/'' [] None)
      [([], region_of ''XX'' [no_iso]), (''de'', region_of ''EU'' [with_iso ''de''])] = ''us''
   \<and> resolve_spec cfg_unset (visit ''/'' [] None)
      [([], region_of ''XX'' [no_iso]), (''de'', region_of ''EU'' [with_iso ''de''])] = []
   \<and> first_segment (visit ''/'' [] None) = Some []
   \<and> map_has [([], region_of ''XX'' [no_iso]), (''de'', region_of ''EU'' [with_iso ''de''])] []
   \<and> first_key [([], region_of ''XX'' [no_iso]), (''de'', region_of ''EU'' [with_iso ''de''])] = Some []"
  by code_simp

text \<open>
  C4, amended. If the first of two calls leaves a mapping whose first inserted key is a
  string that is not empty, and the second call comes no later than 3600 seconds after
  the timestamp the first one left, then the second call performs no fetch and changes
  nothing; the two calls together perform exactly the fetches of the first one: one if
  it refreshed, none otherwise.
\<close>

theorem second_call_in_window_does_not_fetch:
  assumes nonempty: "first_key (regionMap (state_after (getRegionMap cfg e1 s))) = Some k" "k \<noteq> []"
    and window: "now e2 - regionMapUpdated (state_after (getRegionMap cfg e1 s)) \<le> 3600 * 1000"
  shows "getRegionMap cfg e2 (state_after (getRegionMap cfg e1 s))
        = \<lparr>returned = Inr (regionMap (state_after (getRegionMap cfg e1 s))),
           state_after = state_after (getRegionMap cfg e1 s), fetches = 0\<rparr>
    \<and> fetches (getRegionMap cfg e1 s)
        + fetches (getRegionMap cfg e2 (state_after (getRegionMap cfg e1 s)))
        = (if needs_refresh e1 s then 1 else 0)"
proof -
  let ?s1 = "state_after (getRegionMap cfg e1 s)"
  have fresh: "\<not> needs_refresh e2 ?s1"
    using nonempty window by (simp add: needs_refresh_def)
  then have second: "getRegionMap cfg e2 ?s1
      = \<lparr>returned = Inr (regionMap ?s1), state_after = ?s1, fetches = 0\<rparr>"
    by (rule getRegionMap_fresh)
  have "fetches (getRegionMap cfg e1 s) = (if needs_refresh e1 s then 1 else 0)"
    by (simp add: getRegionMap_def Let_def split: sum.splits)
  with second show ?thesis by simp
qed

theorem second_call_in_window_does_not_fetch_witness:
  "first_key (regionMap (state_after (getRegionMap cfg_unset
      (call 1000 (regions_ok [region_of ''EU'' [with_iso ''de'']])) (initial_state 0)))) = Some ''de''
   \<and> getRegionMap cfg_unset (call 2000 FetchThrows)
       (state_after (getRegionMap cfg_unset
          (call 1000 (regions_ok [region_of ''EU'' [with_iso ''de'']])) (initial_state 0)))
     = \<lparr>returned = Inr [(''de'', region_of ''EU'' [with_iso ''de''])],
        state_after = \<lparr>regionMap = [(''de'', region_of ''EU'' [with_iso ''de''])],
                        regionMapUpdated = 1001,
                        fallbackRegion = Some (region_of ''EU'' [with_iso ''de''])\<rparr>,
        fetches = 0\<rparr>
   \<and> fetches (getRegionMap cfg_unset
        (call 1000 (regions_ok [region_of ''EU'' [with_iso ''de'']])) (initial_state 0))
      + fetches (getRegionMap cfg_unset (call 2000 FetchThrows)
          (state_after (getRegionMap cfg_unset
            (call 1000 (regions_ok [region_of ''EU'' [with_iso ''de'']])) (initial_state 0)))) = 1"
proof -
  let ?eu = "region_of ''EU'' [with_iso ''de'']"
  let ?e1 = "call 1000 (regions_ok [?eu])"
  let ?s1 = "state_after (getRegionMap cfg_unset ?e1 (initial_state 0))"
  have s1: "?s1 = \<lparr>regionMap = [(''de'', ?eu)], regionMapUpdated = 1001,
                    fallbackRegion = Some ?eu\<rparr>"
    by (simp add: getRegionMap_def needs_refresh_def initial_state_def first_key_def
        try_refresh_def populate_def set_countries_def country_key_def select_fallback_def
        region_has_iso_def DEFAULT_REGION_CODE_def)
  have f1: "fetches (getRegionMap cfg_unset ?e1 (initial_state 0)) = 1"
    by (simp add: getRegionMap_def needs_refresh_def initial_state_def first_key_def
        try_refresh_def)
  have key: "first_key (regionMap ?s1) = Some ''de''"
    unfolding s1 by (simp add: first_key_def)
  have ne: "''de'' \<noteq> []" by simp
  have window: "now (call 2000 FetchThrows) - regionMapUpdated ?s1 \<le> 3600 * 1000"
    unfolding s1 by simp
  show ?thesis
    using key f1 second_call_in_window_does_not_fetch [OF key ne window]
    unfolding s1 by simp
qed

text \<open>
  As first stated (the second call never fetches, whatever the outcome of the first) C4
  fails: a first call answered by a non-success status leaves the mapping empty, and the
  second call, one second later, fetches again: two fetches.
\<close>

theorem two_calls_in_window_counterexample:
  "fetches (getRegionMap cfg_unset (call 1000 (FetchResponse False (JsonBody None)))
      (initial_state 0)) = 1
   \<and> fetches (getRegionMap cfg_unset (call 2000 (regions_ok [region_of ''EU'' [with_iso ''de'']]))
      (state_after (getRegionMap cfg_unset (call 1000 (FetchResponse False (JsonBody None)))
         (initial_state 0)))) = 1
   \<and> now (call 2000 (regions_ok [region_of ''EU'' [with_iso ''de'']]))
       - regionMapUpdated (state_after (getRegionMap cfg_unset
           (call 1000 (FetchResponse False (JsonBody None))) (initial_state 0)))
       < 3600 * 1000"
  by (simp add: getRegionMap_def needs_refresh_def initial_state_def first_key_def
      try_refresh_def)

text \<open>
  C5. After a refresh that succeeded with a region list that is not empty, every country
  code listed under a region of the response is a key of the directory, and it is mapped
  to the last region of the response that lists it (the last writer wins on a code that
  several regions list); a code that only one region lists is mapped to that region.
\<close>

theorem refresh_populates_every_listed_code:
  assumes stale: "needs_refresh e s"
    and ok: "fetch e = FetchResponse True (JsonBody (Some rs))"
    and r: "r \<in> set rs" and cs: "countries r = Some cs"
    and c: "c \<in> set cs" and code: "iso_2 c = Some code"
  shows "returned (getRegionMap cfg e s) = Inr (regionMap (state_after (getRegionMap cfg e s)))
    \<and> map_has (regionMap (state_after (getRegionMap cfg e s))) code
    \<and> map_get (regionMap (state_after (getRegionMap cfg e s))) code
        = Some (last (filter (region_writes code) rs))
    \<and> r \<in> set (filter (region_writes code) rs)
    \<and> ((\<forall>r' \<in> set rs. region_writes code r' \<longrightarrow> r' = r) \<longrightarrow>
         map_get (regionMap (state_after (getRegionMap cfg e s))) code = Some r)"
proof -
  let ?writers = "filter (region_writes code) rs"
  from r have ne: "rs \<noteq> []" by auto
  have "country_key c = code" using code by (simp add: country_key_def)
  with c have "\<exists>c' \<in> set cs. country_key c' = code" by blast
  with cs have w: "region_writes code r"
    by (simp add: region_writes_def list_ex_iff)
  with r have mem: "r \<in> set ?writers" by simp
  have wne: "?writers \<noteq> []"
    using r w by (auto simp: filter_empty_conv)
  have st: "regionMap (state_after (getRegionMap cfg e s)) = populate rs (regionMap s)"
    and ret: "returned (getRegionMap cfg e s) = Inr (populate rs (regionMap s))"
    using getRegionMap_success [OF stale ok ne, of cfg] by simp_all
  have val: "map_of (populate rs (regionMap s)) code = Some (last ?writers)"
    using wne by (simp add: map_of_populate)
  have only: "last ?writers = r" if "\<forall>r' \<in> set rs. region_writes code r' \<longrightarrow> r' = r"
  proof -
    have "last ?writers \<in> set ?writers" using wne by (rule last_in_set)
    with that show ?thesis by auto
  qed
  show ?thesis
    using st ret val mem only by (simp add: map_has_def map_get_def)
qed

theorem refresh_populates_every_listed_code_witness:
  "needs_refresh
     (call 1000 (regions_ok [region_of ''NA'' [with_iso ''us'', with_iso ''ca''], region_of ''US'' [with_iso ''us'']]))
     (initial_state 0)
   \<and> map_get (regionMap (state_after (getRegionMap cfg_unset
        (call 1000 (regions_ok [region_of ''NA'' [with_iso ''us'', with_iso ''ca''], region_of ''US'' [with_iso ''us'']]))
        (initial_state 0)))) ''ca'' = Some (region_of ''NA'' [with_iso ''us'', with_iso ''ca''])
   \<and> map_get (regionMap (state_after (getRegionMap cfg_unset
        (call 1000 (regions_ok [region_of ''NA'' [with_iso ''us'', with_iso ''ca''], region_of ''US'' [with_iso ''us'']]))
        (initial_state 0)))) ''us'' = Some (region_of ''US'' [with_iso ''us''])"
proof -
  let ?na = "region_of ''NA'' [with_iso ''us'', with_iso ''ca'']"
  let ?us = "region_of ''US'' [with_iso ''us'']"
  let ?e = "call 1000 (regions_ok [?na, ?us])"
  have stale: "needs_refresh ?e (initial_state 0)"
    by (simp add: needs_refresh_def initial_state_def first_key_def)
  have ok: "fetch ?e = FetchResponse True (JsonBody (Some [?na, ?us]))" by simp
  have r: "?na \<in> set [?na, ?us]" by simp
  have cs: "countries ?na = Some [with_iso ''us'', with_iso ''ca'']" by simp
  have ca: "with_iso ''ca'' \<in> set [with_iso ''us'', with_iso ''ca'']" by simp
  have us: "with_iso ''us'' \<in> set [with_iso ''us'', with_iso ''ca'']" by simp
  have wca: "filter (region_writes ''ca'') [?na, ?us] = [?na]"
    by (simp add: region_writes_def country_key_def)
  have wus: "filter (region_writes ''us'') [?na, ?us] = [?na, ?us]"
    by (simp add: region_writes_def country_key_def)
  show ?thesis
    using stale
      refresh_populates_every_listed_code [OF stale ok r cs ca, of "''ca''" cfg_unset, unfolded wca]
      refresh_populates_every_listed_code [OF stale ok r cs us, of "''us''" cfg_unset, unfolded wus]
    by simp
qed

text \<open>
  C6. If no fallback region is set and a fetch succeeds with a region list that is not
  empty, the fallback region becomes the first region whose countries contain the
  configured default region code, or else the first region of the list. Once a fallback
  region is set, no call and no sequence of calls of \<open>getRegionMap\<close> changes it.
\<close>

theorem fallback_selected_once:
  "(fallbackRegion s = None \<and> needs_refresh e s
      \<and> fetch e = FetchResponse True (JsonBody (Some rs)) \<and> rs \<noteq> [] \<longrightarrow>
      fallbackRegion (state_after (getRegionMap cfg e s)) =
        Some (case find (region_has_iso (DEFAULT_REGION_CODE cfg)) rs of
                Some envRegion \<Rightarrow> envRegion
              | None \<Rightarrow> hd rs))
   \<and> (fallbackRegion s = Some f \<longrightarrow>
        fallbackRegion (state_after (getRegionMap cfg e s)) = Some f
        \<and> fallbackRegion (getRegionMap_calls cfg es s) = Some f)"
proof (intro conjI impI)
  assume a: "fallbackRegion s = None \<and> needs_refresh e s
      \<and> fetch e = FetchResponse True (JsonBody (Some rs)) \<and> rs \<noteq> []"
  then obtain r0 rest where rs: "rs = r0 # rest" by (cases rs) auto
  from a have "fallbackRegion (state_after (getRegionMap cfg e s))
      = select_fallback cfg (hd rs) (tl rs) None"
    by (simp add: getRegionMap_success)
  then show "fallbackRegion (state_after (getRegionMap cfg e s)) =
        Some (case find (region_has_iso (DEFAULT_REGION_CODE cfg)) rs of
                Some envRegion \<Rightarrow> envRegion
              | None \<Rightarrow> hd rs)"
    by (simp add: rs select_fallback_def split: option.splits)
next
  assume "fallbackRegion s = Some f"
  then show "fallbackRegion (state_after (getRegionMap cfg e s)) = Some f"
    by (rule getRegionMap_keeps_fallback)
next
  assume "fallbackRegion s = Some f"
  then show "fallbackRegion (getRegionMap_calls cfg es s) = Some f"
    by (rule getRegionMap_calls_keep_fallback)
qed

theorem fallback_selected_once_witness:
  "fallbackRegion (state_after (getRegionMap cfg_unset
      (call 1000 (regions_ok [region_of ''EU'' [with_iso ''de''], region_of ''NA'' [with_iso ''ca'', with_iso ''us'']]))
      (initial_state 0)))
     = Some (region_of ''NA'' [with_iso ''ca'', with_iso ''us''])
   \<and> fallbackRegion (getRegionMap_calls cfg_unset
        [call 1000 (regions_ok [region_of ''EU'' [with_iso ''de''], region_of ''NA'' [with_iso ''ca'', with_iso ''us'']]),
         call 9000000 (regions_ok [region_of ''US'' [with_iso ''us'']]),
         call 9000002 FetchThrows]
        (initial_state 0))
     = Some (region_of ''NA'' [with_iso ''ca'', with_iso ''us''])"
proof -
  let ?eu = "region_of ''EU'' [with_iso ''de'']"
  let ?na = "region_of ''NA'' [with_iso ''ca'', with_iso ''us'']"
  let ?e1 = "call 1000 (regions_ok [?eu, ?na])"
  let ?later = "[call 9000000 (regions_ok [region_of ''US'' [with_iso ''us'']]), call 9000002 FetchThrows]"
  let ?s1 = "state_after (getRegionMap cfg_unset ?e1 (initial_state 0))"
  have stale: "needs_refresh ?e1 (initial_state 0)"
    by (simp add: needs_refresh_def initial_state_def first_key_def)
  have unset: "fallbackRegion (initial_state 0) = None"
    by (simp add: initial_state_def)
  have pick: "find (region_has_iso (DEFAULT_REGION_CODE cfg_unset)) [?eu, ?na] = Some ?na"
    by (simp add: DEFAULT_REGION_CODE_def region_has_iso_def)
  have first: "fallbackRegion ?s1 = Some ?na"
    using fallback_selected_once [of "initial_state 0" ?e1 "[?eu, ?na]" cfg_unset] stale unset pick
    by simp
  have kept: "fallbackRegion (getRegionMap_calls cfg_unset ?later ?s1) = Some ?na"
    using fallback_selected_once [of ?s1 ?e1 "[?eu, ?na]" cfg_unset ?na ?later] first
    by blast
  from first kept show ?thesis by simp
qed

text \<open>
  C7. When the refresh's fetch answers with a non-success status, or succeeds with a
  missing or empty region list, \<open>getRegionMap\<close> returns the existing mapping, leaves
  the whole module state (mapping, timestamp, fallback region) as it was, and raises
  nothing.
\<close>

theorem getRegionMap_bad_response_unchanged:
  assumes "needs_refresh e s"
    and "(\<exists>body. fetch e = FetchResponse False body)
         \<or> fetch e = FetchResponse True (JsonBody None)
         \<or> fetch e = FetchResponse True (JsonBody (Some []))"
  shows "getRegionMap cfg e s =
           \<lparr>returned = Inr (regionMap s), state_after = s, fetches = 1\<rparr>"
proof -
  from assms(2) have "try_refresh cfg e s = Inr s"
    by (auto simp: try_refresh_def)
  with assms(1) show ?thesis
    by (simp add: getRegionMap_def)
qed

theorem getRegionMap_bad_response_unchanged_witness:
  "needs_refresh (call 5000 (FetchResponse False JsonThrows))
     \<lparr>regionMap = [(''de'', region_of ''EU'' [with_iso ''de''])],
      regionMapUpdated = - 3600000, fallbackRegion = None\<rparr>
   \<and> getRegionMap cfg_unset (call 5000 (FetchResponse False JsonThrows))
       \<lparr>regionMap = [(''de'', region_of ''EU'' [with_iso ''de''])],
        regionMapUpdated = - 3600000, fallbackRegion = None\<rparr>
     = \<lparr>returned = Inr [(''de'', region_of ''EU'' [with_iso ''de''])],
        state_after =
          \<lparr>regionMap = [(''de'', region_of ''EU'' [with_iso ''de''])],
           regionMapUpdated = - 3600000, fallbackRegion = None\<rparr>,
        fetches = 1\<rparr>"
proof -
  have stale: "needs_refresh (call 5000 (FetchResponse False JsonThrows))
     \<lparr>regionMap = [(''de'', region_of ''EU'' [with_iso ''de''])],
      regionMapUpdated = - 3600000, fallbackRegion = None\<rparr>"
    by (simp add: needs_refresh_def)
  show ?thesis
    using stale getRegionMap_bad_response_unchanged [OF stale, of cfg_unset]
    by simp
qed

text \<open>
  C8. When the fetch throws, a mapping that is not empty is to be left untouched (the
  comment of line 80: only without cached regions is the fallback used). The code tests
  emptiness by the truthiness of the first key, so a mapping whose first key is the
  empty string counts as empty: after a response whose first region has a country
  without \<open>iso_2\<close>, a throwing fetch overwrites the cached region of \<open>us\<close> with the
  fallback region and advances the timestamp. On every other state the \<open>catch\<close> path
  does what C8 says (\<open>getRegionMap_fetch_throws\<close>).
\<close>

theorem fetch_error_overwrites_cached_region:
  "state_after (getRegionMap cfg_unset
      (call 1000 (regions_ok [region_of ''NA'' [no_iso, with_iso ''us''], region_of ''US'' [with_iso ''us'']]))
      (initial_state 0))
     = \<lparr>regionMap = [('''', region_of ''NA'' [no_iso, with_iso ''us'']),
                     (''us'', region_of ''US'' [with_iso ''us''])],
        regionMapUpdated = 1001,
        fallbackRegion = Some (region_of ''NA'' [no_iso, with_iso ''us''])\<rparr>
   \<and> getRegionMap cfg_unset (call 2000 FetchThrows)
        \<lparr>regionMap = [('''', region_of ''NA'' [no_iso, with_iso ''us'']),
                     (''us'', region_of ''US'' [with_iso ''us''])],
        regionMapUpdated = 1001,
        fallbackRegion = Some (region_of ''NA'' [no_iso, with_iso ''us''])\<rparr>
     = \<lparr>returned = Inr [('''', region_of ''NA'' [no_iso, with_iso ''us'']),
                        (''us'', region_of ''NA'' [no_iso, with_iso ''us''])],
        state_after =
          \<lparr>regionMap = [('''', region_of ''NA'' [no_iso, with_iso ''us'']),
                        (''us'', region_of ''NA'' [no_iso, with_iso ''us''])],
           regionMapUpdated = 2001,
           fallbackRegion = Some (region_of ''NA'' [no_iso, with_iso ''us''])\<rparr>,
        fetches = 1\<rparr>"
  by (simp add: getRegionMap_def needs_refresh_def initial_state_def first_key_def
      try_refresh_def populate_def set_countries_def country_key_def select_fallback_def
      region_has_iso_def DEFAULT_REGION_CODE_def on_fetch_error_def populate_fallback_def)

theorem fetch_error_overwrites_cached_region_witness:
  "map_get (regionMap (state_after (getRegionMap cfg_unset (call 2000 FetchThrows)
        \<lparr>regionMap = [('''', region_of ''NA'' [no_iso, with_iso ''us'']),
                     (''us'', region_of ''US'' [with_iso ''us''])],
        regionMapUpdated = 1001,
        fallbackRegion = Some (region_of ''NA'' [no_iso, with_iso ''us''])\<rparr>))) ''us''
     = Some (region_of ''NA'' [no_iso, with_iso ''us''])
   \<and> map_get [('''', region_of ''NA'' [no_iso, with_iso ''us'']),
               (''us'', region_of ''US'' [with_iso ''us''])] ''us''
     = Some (region_of ''US'' [with_iso ''us''])"
  using fetch_error_overwrites_cached_region
  by (simp add: map_get_def)

text \<open>
  C9. \<open>middleware\<close> always answers with a response and raises nothing: whenever the
  body of its \<open>try\<close> throws, the answer is a redirect with status 307 to the origin, a
  slash, the default region code, the path (nothing for the root path) and the query
  string. The body does throw when the path name has no first segment.
\<close>

theorem middleware_always_answers:
  "(\<exists>resp. answer (middleware cfg e req s) = Inr resp)
   \<and> (fst (middleware_try cfg e req s) = Inl err \<longrightarrow>
        answer (middleware cfg e req s) =
          Inr (Redirect (origin req @ ''/'' @ DEFAULT_REGION_CODE cfg
                 @ (if pathname req = ''/'' then [] else pathname req)
                 @ search req) 307))
   \<and> (first_segment req = None \<longrightarrow> fst (middleware_try cfg e req s) = Inl TypeError)"
proof (intro conjI impI)
  show "\<exists>resp. answer (middleware cfg e req s) = Inr resp"
    by (cases "middleware_try cfg e req s") (auto simp: middleware_def split: sum.splits)
next
  assume "fst (middleware_try cfg e req s) = Inl err"
  then show "answer (middleware cfg e req s) =
          Inr (Redirect (origin req @ ''/'' @ DEFAULT_REGION_CODE cfg
                 @ (if pathname req = ''/'' then [] else pathname req)
                 @ search req) 307)"
    by (cases "middleware_try cfg e req s") (simp add: middleware_def redirect_target_def)
next
  assume "first_segment req = None"
  then show "fst (middleware_try cfg e req s) = Inl TypeError"
    by (rule first_segment_None_throws)
qed

theorem middleware_always_answers_witness:
  "fst (middleware_try cfg_unset (call 1000 FetchThrows) (visit [] ''?a=b'' None) (initial_state 0))
     = Inl TypeError
   \<and> answer (middleware cfg_unset (call 1000 FetchThrows) (visit [] ''?a=b'' None) (initial_state 0))
     = Inr (Redirect ''https://shop.example/us?a=b'' 307)"
proof -
  let ?e = "call 1000 FetchThrows"
  let ?r = "visit [] ''?a=b'' None"
  have none: "first_segment ?r = None" by code_simp
  have dflt: "DEFAULT_REGION_CODE cfg_unset = ''us''" by code_simp
  have thrown: "fst (middleware_try cfg_unset ?e ?r (initial_state 0)) = Inl TypeError"
    using middleware_always_answers [of cfg_unset ?e ?r "initial_state 0" TypeError] none
    by blast
  have "answer (middleware cfg_unset ?e ?r (initial_state 0))
     = Inr (Redirect ''https://shop.example/us?a=b'' 307)"
    using middleware_always_answers [of cfg_unset ?e ?r "initial_state 0" TypeError] thrown
    unfolding dflt by simp
  with thrown show ?thesis by simp
qed

text \<open>
  C10. If the region list of a successful fetch has a country without \<open>iso_2\<close>, the
  population stores the empty string as a key of the directory, mapped to the last
  region with such a country; the population from the fallback region on the error path
  never stores the empty string. So after a successful refresh the directory may hold
  the key \<open>""\<close>, which is no country code.
\<close>

theorem missing_iso_2_becomes_empty_key:
  "(needs_refresh e s \<and> fetch e = FetchResponse True (JsonBody (Some rs))
      \<and> r \<in> set rs \<and> countries r = Some cs \<and> c \<in> set cs \<and> iso_2 c = None \<longrightarrow>
      map_has (regionMap (state_after (getRegionMap cfg e s))) []
      \<and> map_get (regionMap (state_after (getRegionMap cfg e s))) []
          = Some (last (filter (region_writes []) rs))
      \<and> r \<in> set (filter (region_writes []) rs))
   \<and> (needs_refresh e s \<and> (fetch e = FetchThrows \<or> fetch e = FetchResponse True JsonThrows) \<longrightarrow>
        map_has (regionMap (state_after (getRegionMap cfg e s))) [] = map_has (regionMap s) []
        \<and> map_get (regionMap (state_after (getRegionMap cfg e s))) [] = map_get (regionMap s) [])
   \<and> \<not> map_has (populate_fallback fb []) []"
proof (intro conjI impI)
  assume a: "needs_refresh e s \<and> fetch e = FetchResponse True (JsonBody (Some rs))
      \<and> r \<in> set rs \<and> countries r = Some cs \<and> c \<in> set cs \<and> iso_2 c = None"
  let ?writers = "filter (region_writes []) rs"
  from a have ne: "rs \<noteq> []" by auto
  from a have "country_key c = []" by (simp add: country_key_def)
  with a have "\<exists>c' \<in> set cs. country_key c' = []" by blast
  with a have w: "region_writes [] r" by (simp add: region_writes_def list_ex_iff)
  with a show mem: "r \<in> set ?writers" by simp
  have wne: "?writers \<noteq> []" using a w by (auto simp: filter_empty_conv)
  have st: "regionMap (state_after (getRegionMap cfg e s)) = populate rs (regionMap s)"
    using a ne by (simp add: getRegionMap_success)
  have val: "map_of (populate rs (regionMap s)) [] = Some (last ?writers)"
    using wne by (simp add: map_of_populate)
  from st val show "map_has (regionMap (state_after (getRegionMap cfg e s))) []"
    by (simp add: map_has_def)
  from st val show "map_get (regionMap (state_after (getRegionMap cfg e s))) []
          = Some (last ?writers)"
    by (simp add: map_get_def)
next
  assume b: "needs_refresh e s \<and> (fetch e = FetchThrows \<or> fetch e = FetchResponse True JsonThrows)"
  then have st: "state_after (getRegionMap cfg e s) = on_fetch_error e s"
    by (simp add: getRegionMap_thrown)
  show "map_has (regionMap (state_after (getRegionMap cfg e s))) [] = map_has (regionMap s) []"
    by (simp add: st map_has_def on_fetch_error_map_empty_key)
  show "map_get (regionMap (state_after (getRegionMap cfg e s))) [] = map_get (regionMap s) []"
    by (simp add: st map_get_def on_fetch_error_map_empty_key)
next
  show "\<not> map_has (populate_fallback fb []) []"
    by (simp add: map_has_def map_of_populate_fallback fallback_writes_def)
qed

theorem missing_iso_2_becomes_empty_key_witness:
  "needs_refresh (call 1000 (regions_ok [region_of ''XX'' [no_iso, with_iso ''fr'']])) (initial_state 0)
   \<and> map_has (regionMap (state_after (getRegionMap cfg_unset
        (call 1000 (regions_ok [region_of ''XX'' [no_iso, with_iso ''fr'']])) (initial_state 0)))) []
   \<and> map_get (regionMap (state_after (getRegionMap cfg_unset
        (call 1000 (regions_ok [region_of ''XX'' [no_iso, with_iso ''fr'']])) (initial_state 0)))) []
       = Some (region_of ''XX'' [no_iso, with_iso ''fr''])
   \<and> \<not> map_has (populate_fallback (region_of ''XX'' [no_iso, with_iso ''fr'']) []) []"
proof -
  let ?xx = "region_of ''XX'' [no_iso, with_iso ''fr'']"
  let ?e = "call 1000 (regions_ok [?xx])"
  have stale: "needs_refresh ?e (initial_state 0)"
    by (simp add: needs_refresh_def initial_state_def first_key_def)
  have w: "filter (region_writes []) [?xx] = [?xx]"
    by (simp add: region_writes_def country_key_def)
  show ?thesis
    using stale
      missing_iso_2_becomes_empty_key [of ?e "initial_state 0" "[?xx]" ?xx "[no_iso, with_iso ''fr'']"
        no_iso cfg_unset ?xx, unfolded w]
    by simp
qed

end
